theory Spec2Isabelle
  imports Complex_Main "HOL-Library.Multiset"
begin

section \<open>Values shared by the provider and the repositories\<close>

text \<open>
  Go's \<^verbatim>\<open>error\<close> values. The provider never inspects an error of a dependency, it only
  hands it on, so the constructors record where an error was made: by the HTTP client,
  by \<^verbatim>\<open>json.Unmarshal\<close> (a syntax error of the text, or a JSON value that does not fit
  the Go target), by a store, or by \<^verbatim>\<open>fmt.Errorf\<close> inside this package (with the
  formatted message).
\<close>

datatype error =
    NetworkError string
  | SyntaxError string
  | UnmarshalTypeError string
  | PersistenceError string
  | Errorf string

text \<open>
  A Go call either returns its value, returns an error, or panics. The only panic
  the provider can raise is a failed type assertion \<^verbatim>\<open>x.(T)\<close> on an interface value;
  the panic names the map key whose value was asserted.
\<close>

datatype panic = InterfaceConversion string

datatype 'a result = Ok 'a | Err error | Panic panic

text \<open>
  JSON values as \<^verbatim>\<open>encoding/json\<close> sees them. A number stored into \<^verbatim>\<open>interface{}\<close>
  becomes a \<^verbatim>\<open>float64\<close>; a finite \<^verbatim>\<open>float64\<close> is a rational number, which is all the
  provider uses of it. An object keeps its members in document order, duplicates
  included.
\<close>

datatype json =
    JNull
  | JBool bool
  | JNumber rat
  | JString string
  | JArray "json list"
  | JObject "(string \<times> json) list"

text \<open>
  The provider reads a response only through \<^verbatim>\<open>ioutil.ReadAll\<close> followed by
  \<^verbatim>\<open>json.Unmarshal\<close>; status code and headers are never looked at. A response is
  therefore modelled by its body, and the body by what the decoder's syntax scan makes
  of the bytes: a syntax error, or the JSON value they spell.
\<close>

datatype body = NotJSON error | JSON json

section \<open>Models consumed by the provider\<close>

text \<open>
  Modelled from the spec: the declarations of \<^verbatim>\<open>models.Token\<close> and \<^verbatim>\<open>AuthResult\<close>
  are not in the sources; the fields are the ones the provider reads and writes
  (Token \<^verbatim>\<open>{accessToken, refreshToken, tokenType, expiry, email}\<close>, AuthResult
  \<^verbatim>\<open>{accessToken, email}\<close>). A \<^verbatim>\<open>time.Time\<close> is an instant counted in nanoseconds.
\<close>

record Token =
  AccessToken :: string
  RefreshToken :: string
  TokenType :: string
  Expiry :: int
  Email :: string

record AuthResult =
  AccessToken :: string
  Email :: string

record GoogleConfig =
  ClientID :: string
  ClientSecret :: string
  RedirectURL :: string
  HostedDomains :: "string list option"  \<comment> \<open>\<open>None\<close> is the nil slice\<close>

text \<open>
  The token repository (\<^verbatim>\<open>repositories.Tokens\<close>) is an interface whose implementation is
  not part of the sources: \<^verbatim>\<open>Get\<close> returns a token pointer (possibly nil) and an error
  (possibly nil), \<^verbatim>\<open>Save\<close> returns an error (possibly nil).
\<close>

record Tokens =
  Get :: "string \<Rightarrow> Token option \<times> error option"
  Save :: "Token \<Rightarrow> error option"

text \<open>An \<^verbatim>\<open>http.Request\<close> as the provider builds it, and the client's \<^verbatim>\<open>Do\<close>.\<close>

record Request =
  Method :: string
  URL :: string
  Header :: "(string \<times> string) list"
  Body :: string

record Google =
  config :: GoogleConfig
  tokensRepository :: Tokens
  client :: "Request \<Rightarrow> error + body"

text \<open>
  What the Go runtime contributes: the reading of \<^verbatim>\<open>time.Now()\<close>, and the result of
  converting a \<^verbatim>\<open>float64\<close> outside the \<^verbatim>\<open>int64\<close> range to \<^verbatim>\<open>int64\<close>, which the language
  leaves to the implementation.
\<close>

record Runtime =
  Now :: int
  float64_overflow :: "rat \<Rightarrow> int"

text \<open>The calls a provider operation makes on its dependencies, in order.\<close>

datatype event =
    ClientDo Request
  | TokensGet string
  | TokensSave Token

section \<open>Library functions the provider calls\<close>

fun Join :: "string list \<Rightarrow> string \<Rightarrow> string" where
  "Join [] sep = []"
| "Join [x] sep = x"
| "Join (x # y # ys) sep = x @ sep @ Join (y # ys) sep"

text \<open>
  \<^verbatim>\<open>url.QueryEscape\<close>: letters, digits and \<^verbatim>\<open>- _ . ~\<close> stay, a space becomes \<^verbatim>\<open>+\<close>,
  every other byte becomes \<^verbatim>\<open>%XX\<close> in upper-case hexadecimal.
\<close>

definition unreserved :: "char \<Rightarrow> bool" where
  "unreserved c =
     (let n = (of_char c :: nat)
      in (97 \<le> n \<and> n \<le> 122) \<or> (65 \<le> n \<and> n \<le> 90) \<or> (48 \<le> n \<and> n \<le> 57)
         \<or> c = CHR ''-'' \<or> c = CHR ''_'' \<or> c = CHR ''.'' \<or> c = CHR ''~'')"

definition upperhex :: "nat \<Rightarrow> char" where
  "upperhex n = ''0123456789ABCDEF'' ! (n mod 16)"

definition escape_byte :: "char \<Rightarrow> string" where
  "escape_byte c =
     (if unreserved c then [c]
      else if c = CHR '' '' then ''+''
      else [CHR ''%'', upperhex ((of_char c :: nat) div 16), upperhex (of_char c :: nat)])"

definition QueryEscape :: "string \<Rightarrow> string" where
  "QueryEscape s = concat (map escape_byte s)"

text \<open>
  \<^verbatim>\<open>for k, v := range m\<close> visits every entry of a map once, in an order the language
  does not specify and that may change from one loop to the next. A map literal is
  given by its entries (the keys are distinct); the order the runtime picks is a
  parameter, a rearrangement of the entries.
\<close>

type_synonym range_order = "(string \<times> string) list \<Rightarrow> (string \<times> string) list"

definition is_range_order :: "range_order \<Rightarrow> bool" where
  "is_range_order rng = (\<forall>m. mset (rng m) = mset m)"

text \<open>
  Time: \<^verbatim>\<open>time.Duration\<close> is an \<^verbatim>\<open>int64\<close> count of nanoseconds, and its arithmetic wraps
  around. \<^verbatim>\<open>Time.Add\<close> moves an instant by a duration; instants have a far wider range
  than durations, so the sum is exact.
\<close>

definition wrap64 :: "int \<Rightarrow> int" where
  "wrap64 k = (k + 2 ^ 63) mod 2 ^ 64 - 2 ^ 63"

definition Second :: int where
  "Second = 1000000000"

definition truncate_float64 :: "rat \<Rightarrow> int" where
  "truncate_float64 x = (if 0 \<le> x then \<lfloor>x\<rfloor> else \<lceil>x\<rceil>)"

definition Duration_of_float64 :: "Runtime \<Rightarrow> rat \<Rightarrow> int" where
  "Duration_of_float64 rt x =
     (if - (2 ^ 63) \<le> truncate_float64 x \<and> truncate_float64 x < 2 ^ 63 then truncate_float64 x
      else wrap64 (float64_overflow rt x))"

definition Duration_mul :: "int \<Rightarrow> int \<Rightarrow> int" where
  "Duration_mul a b = wrap64 (a * b)"

definition Time_Add :: "int \<Rightarrow> int \<Rightarrow> int" where
  "Time_Add t d = t + d"

section \<open>Decoding JSON into Go values\<close>

text \<open>
  \<^verbatim>\<open>json.Unmarshal(body, &tmap)\<close> with \<^verbatim>\<open>tmap\<close> an empty \<^verbatim>\<open>map[string]interface{}\<close>:
  a syntax error of the text is returned; \<^verbatim>\<open>null\<close> leaves the map as it is; an
  object stores every member under its key, a later duplicate overwriting an earlier
  one; any other value does not fit a map and is an \<^verbatim>\<open>UnmarshalTypeError\<close>.
\<close>

fun kind_of :: "json \<Rightarrow> string" where
  "kind_of JNull = ''null''"
| "kind_of (JBool b) = ''bool''"
| "kind_of (JNumber x) = ''number''"
| "kind_of (JString s) = ''string''"
| "kind_of (JArray xs) = ''array''"
| "kind_of (JObject kvs) = ''object''"

fun Unmarshal_map :: "body \<Rightarrow> error + (string \<rightharpoonup> json)" where
  "Unmarshal_map (NotJSON err) = Inl err"
| "Unmarshal_map (JSON JNull) = Inr Map.empty"
| "Unmarshal_map (JSON (JObject kvs)) = Inr (map_of (rev kvs))"
| "Unmarshal_map (JSON v) = Inl (UnmarshalTypeError (kind_of v))"

text \<open>
  The type assertions \<^verbatim>\<open>tmap[key].(string)\<close> and \<^verbatim>\<open>tmap[key].(float64)\<close>: a missing key
  reads as the nil interface, and \<^verbatim>\<open>null\<close> is stored as nil; the assertion holds only
  for a value of exactly the asserted dynamic type, and panics otherwise.
\<close>

fun assert_string :: "json option \<Rightarrow> string option" where
  "assert_string (Some (JString s)) = Some s"
| "assert_string _ = None"

fun assert_float64 :: "json option \<Rightarrow> rat option" where
  "assert_float64 (Some (JNumber x)) = Some x"
| "assert_float64 _ = None"

text \<open>
  \<^verbatim>\<open>json.Unmarshal(body, ui)\<close> with \<^verbatim>\<open>ui\<close> a zero \<^verbatim>\<open>userInfo\<close>. A member's key selects
  the field whose tag it equals, upper and lower case of ASCII letters not
  distinguished; other members are skipped. A string is stored in the field, \<^verbatim>\<open>null\<close>
  leaves the field alone, any other value is an \<^verbatim>\<open>UnmarshalTypeError\<close>: decoding goes
  on, and the first such error is returned at the end. At top level \<^verbatim>\<open>null\<close> leaves the
  struct alone and any value but an object is an \<^verbatim>\<open>UnmarshalTypeError\<close>.
\<close>

record userInfo =
  Email :: string
  HostedDomain :: string

definition asciiUpper :: "char \<Rightarrow> char" where
  "asciiUpper c =
     (let n = (of_char c :: nat) in if 97 \<le> n \<and> n \<le> 122 then char_of (n - 32) else c)"

definition tag_matches :: "string \<Rightarrow> string \<Rightarrow> bool" where
  "tag_matches tag key = (map asciiUpper key = map asciiUpper tag)"

fun store_string :: "json \<Rightarrow> string \<times> error option \<Rightarrow> string \<times> error option" where
  "store_string (JString s) (old, e) = (s, e)"
| "store_string JNull (old, e) = (old, e)"
| "store_string v (old, None) = (old, Some (UnmarshalTypeError (kind_of v)))"
| "store_string v (old, Some e) = (old, Some e)"

fun object_userInfo ::
  "(string \<times> json) list \<Rightarrow> userInfo \<times> error option \<Rightarrow> userInfo \<times> error option" where
  "object_userInfo [] (ui, e) = (ui, e)"
| "object_userInfo ((k, v) # kvs) (ui, e) =
     (if tag_matches ''email'' k then
        (case store_string v (userInfo.Email ui, e) of
           (s, e') \<Rightarrow> object_userInfo kvs (ui\<lparr>userInfo.Email := s\<rparr>, e'))
      else if tag_matches ''hd'' k then
        (case store_string v (HostedDomain ui, e) of
           (s, e') \<Rightarrow> object_userInfo kvs (ui\<lparr>HostedDomain := s\<rparr>, e'))
      else object_userInfo kvs (ui, e))"

fun Unmarshal_userInfo :: "body \<Rightarrow> error + userInfo" where
  "Unmarshal_userInfo (NotJSON err) = Inl err"
| "Unmarshal_userInfo (JSON JNull) = Inr \<lparr>userInfo.Email = '''', HostedDomain = ''''\<rparr>"
| "Unmarshal_userInfo (JSON (JObject kvs)) =
     (case object_userInfo kvs (\<lparr>userInfo.Email = '''', HostedDomain = ''''\<rparr>, None) of
        (ui, None) \<Rightarrow> Inr ui
      | (ui, Some err) \<Rightarrow> Inl err)"
| "Unmarshal_userInfo (JSON v) = Inl (UnmarshalTypeError (kind_of v))"

section \<open>The Google provider\<close>

definition tokenEndpoint :: string where
  "tokenEndpoint = ''https://www.googleapis.com/oauth2/v4/token''"

definition userEndpoint :: string where
  "userEndpoint = ''https://www.googleapis.com/oauth2/v2/userinfo''"

definition buildURL :: "string \<Rightarrow> string \<Rightarrow> string" where
  "buildURL endpoint queryStrings = endpoint @ ''?'' @ queryStrings"

definition mapToQueryStrings :: "range_order \<Rightarrow> (string \<times> string) list \<Rightarrow> string" where
  "mapToQueryStrings rng m = Join (map (\<lambda>(k, v). k @ ''='' @ v) (rng m)) ''&''"

definition authParams :: "Google \<Rightarrow> string \<Rightarrow> (string \<times> string) list" where
  "authParams g state =
     [(''state'', state),
      (''redirect_uri'', RedirectURL (config g)),
      (''client_id'', ClientID (config g)),
      (''scope'', Join
         [QueryEscape ''https://www.googleapis.com/auth/userinfo.profile'',
          QueryEscape ''https://www.googleapis.com/auth/userinfo.email''] ''+''),
      (''access_type'', ''offline''),
      (''include_granted_scopes'', ''true''),
      (''response_type'', ''code''),
      (''prompt'', ''consent'')]"

definition BuildAuthURL :: "range_order \<Rightarrow> Google \<Rightarrow> string \<Rightarrow> string" where
  "BuildAuthURL rng g state =
     buildURL ''https://accounts.google.com/o/oauth2/v2/auth''
       (mapToQueryStrings rng (authParams g state))"

text \<open>
  \<^verbatim>\<open>url.Values.Encode\<close> writes the keys in sorted order, each key and value escaped
  by \<^verbatim>\<open>QueryEscape\<close>; the five keys added here are distinct.
\<close>

definition buildExchangeCodeForm :: "Google \<Rightarrow> string \<Rightarrow> string" where
  "buildExchangeCodeForm g code =
     Join
       [''client_id='' @ QueryEscape (ClientID (config g)),
        ''client_secret='' @ QueryEscape (ClientSecret (config g)),
        ''code='' @ QueryEscape code,
        ''grant_type='' @ QueryEscape ''authorization_code'',
        ''redirect_uri='' @ QueryEscape (RedirectURL (config g))] ''&''"

text \<open>
  The composite literal of \<^verbatim>\<open>tokenFromCode\<close>: its four type assertions are evaluated in
  the order they are written, and the first that fails panics.
\<close>

definition token_of_tmap :: "Runtime \<Rightarrow> (string \<rightharpoonup> json) \<Rightarrow> Token result" where
  "token_of_tmap rt tmap =
     (case assert_string (tmap ''access_token'') of
        None \<Rightarrow> Panic (InterfaceConversion ''access_token'')
      | Some atk \<Rightarrow>
     (case assert_string (tmap ''refresh_token'') of
        None \<Rightarrow> Panic (InterfaceConversion ''refresh_token'')
      | Some rft \<Rightarrow>
     (case assert_string (tmap ''token_type'') of
        None \<Rightarrow> Panic (InterfaceConversion ''token_type'')
      | Some tt \<Rightarrow>
     (case assert_float64 (tmap ''expires_in'') of
        None \<Rightarrow> Panic (InterfaceConversion ''expires_in'')
      | Some x \<Rightarrow>
          Ok \<lparr>Token.AccessToken = atk, RefreshToken = rft, TokenType = tt,
              Expiry = Time_Add (Now rt) (Duration_mul Second (Duration_of_float64 rt x)),
              Token.Email = []\<rparr>))))"

text \<open>
  \<^verbatim>\<open>http.NewRequest\<close> cannot fail here: the method and the URL are valid constants.
\<close>

definition token_request :: "Google \<Rightarrow> string \<Rightarrow> Request" where
  "token_request g code =
     \<lparr>Method = ''POST'', URL = tokenEndpoint,
      Header = [(''Content-Type'', ''application/x-www-form-urlencoded'')],
      Body = buildExchangeCodeForm g code\<rparr>"

definition tokenFromCode :: "Google \<Rightarrow> Runtime \<Rightarrow> string \<Rightarrow> Token result \<times> event list" where
  "tokenFromCode g rt code =
     (let req = token_request g code
      in case client g req of
           Inl err \<Rightarrow> (Err err, [ClientDo req])
         | Inr body \<Rightarrow>
             (case Unmarshal_map body of
                Inl err \<Rightarrow> (Err err, [ClientDo req])
              | Inr tmap \<Rightarrow> (token_of_tmap rt tmap, [ClientDo req])))"

definition userinfo_request :: "string \<Rightarrow> Request" where
  "userinfo_request accessToken =
     \<lparr>Method = ''GET'', URL = userEndpoint,
      Header = [(''Authorization'', ''Bearer '' @ accessToken)],
      Body = []\<rparr>"

definition getUserInfo :: "Google \<Rightarrow> string \<Rightarrow> userInfo result \<times> event list" where
  "getUserInfo g accessToken =
     (let req = userinfo_request accessToken
      in case client g req of
           Inl err \<Rightarrow> (Err err, [ClientDo req])
         | Inr body \<Rightarrow>
             (case Unmarshal_userInfo body of
                Inl err \<Rightarrow> (Err err, [ClientDo req])
              | Inr ui \<Rightarrow> (Ok ui, [ClientDo req])))"

fun hostedDomains_loop :: "string list \<Rightarrow> string \<Rightarrow> bool" where
  "hostedDomains_loop [] hdom = False"
| "hostedDomains_loop (allowed # rest) hdom =
     (if hdom = allowed then True else hostedDomains_loop rest hdom)"

definition checkHostedDomain :: "Google \<Rightarrow> string \<Rightarrow> bool" where
  "checkHostedDomain g hdom =
     (case HostedDomains (config g) of
        None \<Rightarrow> True
      | Some domains \<Rightarrow>
          if length domains = 0 then True else hostedDomains_loop domains hdom)"

definition ExchangeCode :: "Google \<Rightarrow> Runtime \<Rightarrow> string \<Rightarrow> AuthResult result \<times> event list" where
  "ExchangeCode g rt code =
     (case tokenFromCode g rt code of
        (Err err, tr1) \<Rightarrow> (Err err, tr1)
      | (Panic p, tr1) \<Rightarrow> (Panic p, tr1)
      | (Ok t, tr1) \<Rightarrow>
     (case getUserInfo g (Token.AccessToken t) of
        (Err err, tr2) \<Rightarrow> (Err err, tr1 @ tr2)
      | (Panic p, tr2) \<Rightarrow> (Panic p, tr1 @ tr2)
      | (Ok ui, tr2) \<Rightarrow>
          if \<not> checkHostedDomain g (HostedDomain ui) then
            (Err (Errorf (''email from non-allowed hosted domain '' @ HostedDomain ui)),
             tr1 @ tr2)
          else
            (let t' = t\<lparr>Token.Email := userInfo.Email ui\<rparr>
             in case Save (tokensRepository g) t' of
                  Some err \<Rightarrow> (Err err, tr1 @ tr2 @ [TokensSave t'])
                | None \<Rightarrow>
                    (Ok \<lparr>AuthResult.AccessToken = Token.AccessToken t',
                         AuthResult.Email = Token.Email t'\<rparr>,
                     tr1 @ tr2 @ [TokensSave t']))))"

text \<open>
  \<^verbatim>\<open>Authenticate\<close> tests \<^verbatim>\<open>t == nil\<close> before it tests \<^verbatim>\<open>err != nil\<close>.
\<close>

definition Authenticate :: "Google \<Rightarrow> string \<Rightarrow> AuthResult result \<times> event list" where
  "Authenticate g accessToken =
     (case Get (tokensRepository g) accessToken of
        (None, err) \<Rightarrow> (Err (Errorf ''access token not found''), [TokensGet accessToken])
      | (Some t, Some err) \<Rightarrow> (Err err, [TokensGet accessToken])
      | (Some t, None) \<Rightarrow>
          (case getUserInfo g (Token.AccessToken t) of
             (Err err, tr) \<Rightarrow> (Err err, TokensGet accessToken # tr)
           | (Panic p, tr) \<Rightarrow> (Panic p, TokensGet accessToken # tr)
           | (Ok ui, tr) \<Rightarrow>
               (Ok \<lparr>AuthResult.AccessToken = Token.AccessToken t,
                    AuthResult.Email = Token.Email t\<rparr>,
                TokensGet accessToken # tr)))"

text \<open>The configured allow-list: a nil slice holds no domain.\<close>

definition allow_list :: "Google \<Rightarrow> string list" where
  "allow_list g = (case HostedDomains (config g) of None \<Rightarrow> [] | Some domains \<Rightarrow> domains)"

text \<open>The tokens an operation handed to \<^verbatim>\<open>Save\<close>, in order.\<close>

fun saved_tokens :: "event list \<Rightarrow> Token list" where
  "saved_tokens [] = []"
| "saved_tokens (TokensSave t # es) = t # saved_tokens es"
| "saved_tokens (e # es) = saved_tokens es"

text \<open>The requests an operation sent through the HTTP client, in order.\<close>

fun requests :: "event list \<Rightarrow> Request list" where
  "requests [] = []"
| "requests (ClientDo req # es) = req # requests es"
| "requests (e # es) = requests es"

section \<open>Reading a query string back\<close>

text \<open>
  The repository builds the authorization URL and never reads one. What a reader of the
  URL finds in its query string is stated here as \<^verbatim>\<open>net/url\<close> finds it
  (\<^verbatim>\<open>url.Parse(u).Query().Get(key)\<close>): these definitions are the specification's side of
  the state parameter, not code of the repository. The fragment after the first \<^verbatim>\<open>#\<close> is dropped and the query is what
  follows the first \<^verbatim>\<open>?\<close>. The query is cut at every \<^verbatim>\<open>&\<close>; an empty piece and a piece
  with a semicolon are skipped; a piece is cut at its first \<^verbatim>\<open>=\<close> into key and value;
  both are unescaped (\<^verbatim>\<open>+\<close> is a space, \<^verbatim>\<open>%XX\<close> a byte), and a piece that does not
  unescape is skipped. \<^verbatim>\<open>Get\<close> is the first value stored under the key, or the empty
  string.
\<close>

fun Cut :: "char \<Rightarrow> string \<Rightarrow> string \<times> string" where
  "Cut sep [] = ([], [])"
| "Cut sep (c # cs) =
     (if c = sep then ([], cs) else (case Cut sep cs of (before, after) \<Rightarrow> (c # before, after)))"

fun Split :: "char \<Rightarrow> string \<Rightarrow> string list" where
  "Split sep [] = [[]]"
| "Split sep (c # cs) =
     (if c = sep then [] # Split sep cs
      else (case Split sep cs of [] \<Rightarrow> [[c]] | p # ps \<Rightarrow> (c # p) # ps))"

definition unhex :: "char \<Rightarrow> nat option" where
  "unhex c =
     (let n = (of_char c :: nat)
      in if 48 \<le> n \<and> n \<le> 57 then Some (n - 48)
         else if 97 \<le> n \<and> n \<le> 102 then Some (n - 87)
         else if 65 \<le> n \<and> n \<le> 70 then Some (n - 55)
         else None)"

fun QueryUnescape :: "string \<Rightarrow> string option" where
  "QueryUnescape [] = Some []"
| "QueryUnescape (c # cs) =
     (if c = CHR ''%'' then
        (case cs of
           a # b # rest \<Rightarrow>
             (case (unhex a, unhex b) of
                (Some x, Some y) \<Rightarrow> map_option ((#) (char_of (16 * x + y))) (QueryUnescape rest)
              | _ \<Rightarrow> None)
         | _ \<Rightarrow> None)
      else if c = CHR ''+'' then map_option ((#) CHR '' '') (QueryUnescape cs)
      else map_option ((#) c) (QueryUnescape cs))"

definition query_piece :: "string \<Rightarrow> (string \<times> string) list" where
  "query_piece p =
     (if p = [] \<or> CHR '';'' \<in> set p then []
      else (case Cut CHR ''='' p of
              (k, v) \<Rightarrow>
                (case (QueryUnescape k, QueryUnescape v) of
                   (Some k', Some v') \<Rightarrow> [(k', v')]
                 | _ \<Rightarrow> [])))"

definition ParseQuery :: "string \<Rightarrow> (string \<times> string) list" where
  "ParseQuery query = concat (map query_piece (Split CHR ''&'' query))"

definition RawQuery :: "string \<Rightarrow> string" where
  "RawQuery url = snd (Cut CHR ''?'' (fst (Cut CHR ''#'' url)))"

definition Values_Get :: "(string \<times> string) list \<Rightarrow> string \<Rightarrow> string" where
  "Values_Get vs key = (case map_of vs key of None \<Rightarrow> [] | Some v \<Rightarrow> v)"

definition url_query_param :: "string \<Rightarrow> string \<Rightarrow> string" where
  "url_query_param url key = Values_Get (ParseQuery (RawQuery url)) key"

section \<open>The roles repository\<close>

text \<open>
  Modelled from the spec: the declarations of \<^verbatim>\<open>models.Role\<close> and
  \<^verbatim>\<open>models.RoleBinding\<close> are not in the sources; their fields are the columns the
  statements name (\<^verbatim>\<open>roles(id, name)\<close>, \<^verbatim>\<open>role_bindings(role_id, service_account_id)\<close>).
  The storage is the database behind \<^verbatim>\<open>rs.storage.PG.DB\<close>: the rows of the two tables,
  those of \<^verbatim>\<open>role_bindings\<close> in the order they were inserted, and the error the
  connection reports when a statement cannot be executed (\<open>None\<close> when it can).
\<close>

record Role =
  ID :: string
  Name :: string

record RoleBinding =
  RoleID :: string
  ServiceAccountID :: string

record Storage =
  roles_table :: "Role list"
  role_bindings_table :: "RoleBinding list"
  PG_error :: "error option"

text \<open>
  The statement of \<^verbatim>\<open>ForServiceAccountID\<close> is an inner join: one result row
  \<^verbatim>\<open>(r.id, r.name)\<close> for every pair of a role \<^verbatim>\<open>r\<close> and a binding \<^verbatim>\<open>rb\<close> with
  \<^verbatim>\<open>rb.role_id = r.id\<close> and \<^verbatim>\<open>rb.service_account_id\<close> the parameter. SQL fixes no order
  of the rows; the model lists them as a nested loop over the two tables does.
\<close>

definition ForServiceAccountID :: "Storage \<Rightarrow> string \<Rightarrow> error + Role list" where
  "ForServiceAccountID st serviceAccountID =
     (case PG_error st of
        Some err \<Rightarrow> Inl err
      | None \<Rightarrow>
          Inr [r. r \<leftarrow> roles_table st, rb \<leftarrow> role_bindings_table st,
                  RoleID rb = ID r \<and> ServiceAccountID rb = serviceAccountID])"

text \<open>The roles bound to a service account: those some binding row gives it.\<close>

definition bound_roles :: "Storage \<Rightarrow> string \<Rightarrow> Role set" where
  "bound_roles st sa =
     {r. r \<in> set (roles_table st) \<and>
         (\<exists>rb. rb \<in> set (role_bindings_table st) \<and> RoleID rb = ID r \<and> ServiceAccountID rb = sa)}"

section \<open>Sample values\<close>

definition acme_config :: GoogleConfig where
  "acme_config =
     \<lparr>ClientID = ''client-1'', ClientSecret = ''secret-1'',
      RedirectURL = ''https://iam.example.org/callback'',
      HostedDomains = Some [''acme.com'']\<rparr>"

definition token_body :: "rat \<Rightarrow> body" where
  "token_body expires_in =
     JSON (JObject [(''access_token'', JString ''AT1''), (''refresh_token'', JString ''RT1''),
                    (''token_type'', JString ''Bearer''), (''expires_in'', JNumber expires_in)])"

definition identity_body :: "string \<Rightarrow> body" where
  "identity_body hdom =
     JSON (JObject [(''email'', JString ''a@acme.com''), (''hd'', JString hdom)])"

definition personal_body :: body where
  "personal_body = JSON (JObject [(''email'', JString ''a@gmail.com'')])"

definition error_body :: body where
  "error_body =
     JSON (JObject [(''error'', JString ''invalid_grant''),
                    (''error_description'', JString ''Bad Request'')])"

text \<open>A client that answers the token endpoint with one body and every other URL with another.\<close>

definition serve :: "body \<Rightarrow> body \<Rightarrow> Request \<Rightarrow> error + body" where
  "serve tb ib req = (if URL req = tokenEndpoint then Inr tb else Inr ib)"

definition empty_store :: Tokens where
  "empty_store = \<lparr>Get = (\<lambda>k. (None, None)), Save = (\<lambda>t. None)\<rparr>"

definition broken_store :: Tokens where
  "broken_store =
     \<lparr>Get = (\<lambda>k. (None, Some (PersistenceError ''connection refused''))),
      Save = (\<lambda>t. Some (PersistenceError ''connection refused''))\<rparr>"

definition acme :: "body \<Rightarrow> body \<Rightarrow> Google" where
  "acme tb ib = \<lparr>config = acme_config, tokensRepository = empty_store, client = serve tb ib\<rparr>"

definition noon :: Runtime where
  "noon = \<lparr>Now = 1000000000000000000, float64_overflow = (\<lambda>x. - (2 ^ 63))\<rparr>"

definition sample_storage :: "RoleBinding list \<Rightarrow> Storage" where
  "sample_storage bs =
     \<lparr>roles_table = [\<lparr>ID = ''1'', Name = ''admin''\<rparr>, \<lparr>ID = ''2'', Name = ''viewer''\<rparr>],
      role_bindings_table = bs, PG_error = None\<rparr>"

section \<open>How the operations unfold\<close>

lemma hostedDomains_loop_iff: "hostedDomains_loop ds h \<longleftrightarrow> h \<in> set ds"
  by (induction ds) auto

lemma checkHostedDomain_iff:
  "checkHostedDomain g h \<longleftrightarrow> allow_list g = [] \<or> h \<in> set (allow_list g)"
  by (auto simp add: checkHostedDomain_def allow_list_def hostedDomains_loop_iff split: option.splits)

lemma tokenFromCode_trace: "snd (tokenFromCode g rt code) = [ClientDo (token_request g code)]"
  by (simp add: tokenFromCode_def Let_def split: sum.splits)

lemma getUserInfo_trace: "snd (getUserInfo g a) = [ClientDo (userinfo_request a)]"
  by (simp add: getUserInfo_def Let_def split: sum.splits)

lemma getUserInfo_not_Panic: "fst (getUserInfo g a) \<noteq> Panic p"
  by (simp add: getUserInfo_def Let_def split: sum.splits)

lemma tokenFromCode_Ok:
  assumes "fst (tokenFromCode g rt code) = Ok t"
  shows "\<exists>b tmap. client g (token_request g code) = Inr b \<and> Unmarshal_map b = Inr tmap
           \<and> token_of_tmap rt tmap = Ok t"
  using assms by (auto simp add: tokenFromCode_def Let_def split: sum.splits)

lemma token_of_tmap_Ok:
  assumes "token_of_tmap rt tmap = Ok t"
  shows "\<exists>x. tmap ''access_token'' = Some (JString (Token.AccessToken t))
           \<and> tmap ''expires_in'' = Some (JNumber x)
           \<and> Expiry t = Time_Add (Now rt) (Duration_mul Second (Duration_of_float64 rt x))"
  using assms
  apply (simp add: token_of_tmap_def split: option.splits)
  apply (auto elim!: assert_string.elims assert_float64.elims)
  done

lemma getUserInfo_Ok:
  assumes "fst (getUserInfo g a) = Ok ui"
  shows "\<exists>b. client g (userinfo_request a) = Inr b \<and> Unmarshal_userInfo b = Inr ui"
  using assms by (auto simp add: getUserInfo_def Let_def split: sum.splits)

lemma ExchangeCode_Ok:
  assumes "ExchangeCode g rt code = (Ok ar, tr)"
  shows "\<exists>t ui. fst (tokenFromCode g rt code) = Ok t
           \<and> fst (getUserInfo g (Token.AccessToken t)) = Ok ui
           \<and> checkHostedDomain g (HostedDomain ui)
           \<and> Save (tokensRepository g) (t\<lparr>Token.Email := userInfo.Email ui\<rparr>) = None
           \<and> ar = \<lparr>AuthResult.AccessToken = Token.AccessToken t, AuthResult.Email = userInfo.Email ui\<rparr>
           \<and> tr = [ClientDo (token_request g code), ClientDo (userinfo_request (Token.AccessToken t)),
                   TokensSave (t\<lparr>Token.Email := userInfo.Email ui\<rparr>)]"
proof -
  obtain r1 tr1 where a: "tokenFromCode g rt code = (r1, tr1)" by (cases "tokenFromCode g rt code")
  have tr1: "tr1 = [ClientDo (token_request g code)]" using tokenFromCode_trace [of g rt code] a by simp
  from assms a obtain t where r1: "r1 = Ok t"
    by (cases r1) (auto simp add: ExchangeCode_def)
  obtain r2 tr2 where b: "getUserInfo g (Token.AccessToken t) = (r2, tr2)"
    by (cases "getUserInfo g (Token.AccessToken t)")
  have tr2: "tr2 = [ClientDo (userinfo_request (Token.AccessToken t))]"
    using getUserInfo_trace [of g "Token.AccessToken t"] b by simp
  from assms a r1 b obtain ui where r2: "r2 = Ok ui"
    by (cases r2) (auto simp add: ExchangeCode_def)
  from assms a r1 b r2 tr1 tr2 show ?thesis
    by (auto simp add: ExchangeCode_def Let_def split: if_splits option.splits)
qed

lemma URL_token_request: "URL (token_request g code) = tokenEndpoint"
  by (simp add: token_request_def)

lemma URL_userinfo_request: "URL (userinfo_request a) = userEndpoint"
  by (simp add: userinfo_request_def)

lemma endpoints_differ: "userEndpoint \<noteq> tokenEndpoint"
  by (simp add: userEndpoint_def tokenEndpoint_def)

lemma serve_token: "serve tb ib (token_request g code) = Inr tb"
  by (simp add: serve_def URL_token_request)

lemma serve_userinfo: "serve tb ib (userinfo_request a) = Inr ib"
  by (simp add: serve_def URL_userinfo_request endpoints_differ)

lemma acme_fields:
  "client (acme tb ib) = serve tb ib"
  "tokensRepository (acme tb ib) = empty_store"
  "config (acme tb ib) = acme_config"
  by (simp_all add: acme_def)

lemma token_request_acme: "token_request (acme tb ib) code = token_request (acme tb' ib') code"
  by (simp add: token_request_def buildExchangeCodeForm_def acme_fields)

lemma allow_list_acme: "allow_list (acme tb ib) = [''acme.com'']"
  by (simp add: allow_list_def acme_fields acme_config_def)

lemma tokenFromCode_acme:
  "tokenFromCode (acme (token_body x) ib) rt code =
     (Ok \<lparr>Token.AccessToken = ''AT1'', RefreshToken = ''RT1'', TokenType = ''Bearer'',
          Expiry = Time_Add (Now rt) (Duration_mul Second (Duration_of_float64 rt x)),
          Token.Email = []\<rparr>,
      [ClientDo (token_request (acme (token_body x) ib) code)])"
  by (simp add: tokenFromCode_def Let_def acme_fields serve_token token_body_def token_of_tmap_def)

lemma tag_matches_simps:
  "tag_matches ''email'' ''email''" "\<not> tag_matches ''email'' ''hd''"
  "tag_matches ''hd'' ''hd''" "\<not> tag_matches ''hd'' ''email''"
  by (simp_all add: tag_matches_def)

lemma getUserInfo_acme:
  "getUserInfo (acme tb (identity_body h)) a =
     (Ok \<lparr>userInfo.Email = ''a@acme.com'', HostedDomain = h\<rparr>, [ClientDo (userinfo_request a)])"
  by (simp add: getUserInfo_def Let_def acme_fields serve_userinfo identity_body_def tag_matches_simps)

lemma ExchangeCode_acme:
  "ExchangeCode (acme (token_body x) (identity_body ''acme.com'')) rt code =
     (Ok \<lparr>AuthResult.AccessToken = ''AT1'', AuthResult.Email = ''a@acme.com''\<rparr>,
      [ClientDo (token_request (acme (token_body x) (identity_body ''acme.com'')) code),
       ClientDo (userinfo_request ''AT1''),
       TokensSave \<lparr>Token.AccessToken = ''AT1'', RefreshToken = ''RT1'', TokenType = ''Bearer'',
          Expiry = Time_Add (Now rt) (Duration_mul Second (Duration_of_float64 rt x)),
          Token.Email = ''a@acme.com''\<rparr>])"
  by (simp add: ExchangeCode_def tokenFromCode_acme getUserInfo_acme checkHostedDomain_iff
      allow_list_acme acme_fields empty_store_def)

section \<open>A successful exchange saves one token\<close>

text \<open>
  Claim C1. Whenever \<^verbatim>\<open>ExchangeCode\<close> succeeds, the token endpoint answered with a JSON
  object whose \<^verbatim>\<open>access_token\<close> is the access token of the returned \<^verbatim>\<open>AuthResult\<close>, the
  identity endpoint (asked with that access token) answered with a body whose decoded
  email is the email of the \<^verbatim>\<open>AuthResult\<close>, and the store saved exactly one token: the
  calls made are the two requests followed by one \<^verbatim>\<open>Save\<close>, the token handed to it
  carries that same access token and email, and the store's \<^verbatim>\<open>Save\<close> accepted it
  (it returned no error).
\<close>

theorem ExchangeCode_persists_one_token:
  assumes "ExchangeCode g rt code = (Ok ar, tr)"
  shows "\<exists>tb tmap ib ui t.
           client g (token_request g code) = Inr tb \<and> Unmarshal_map tb = Inr tmap \<and>
           tmap ''access_token'' = Some (JString (AuthResult.AccessToken ar)) \<and>
           client g (userinfo_request (AuthResult.AccessToken ar)) = Inr ib \<and>
           Unmarshal_userInfo ib = Inr ui \<and>
           userInfo.Email ui = AuthResult.Email ar \<and>
           tr = [ClientDo (token_request g code),
                 ClientDo (userinfo_request (AuthResult.AccessToken ar)),
                 TokensSave t] \<and>
           saved_tokens tr = [t] \<and>
           Save (tokensRepository g) t = None \<and>
           Token.AccessToken t = AuthResult.AccessToken ar \<and>
           Token.Email t = AuthResult.Email ar"
proof -
  from ExchangeCode_Ok [OF assms] obtain t ui where
    t: "fst (tokenFromCode g rt code) = Ok t" and
    ui: "fst (getUserInfo g (Token.AccessToken t)) = Ok ui" and
    "checkHostedDomain g (HostedDomain ui)" and
    sv: "Save (tokensRepository g) (t\<lparr>Token.Email := userInfo.Email ui\<rparr>) = None" and
    ar: "ar = \<lparr>AuthResult.AccessToken = Token.AccessToken t, AuthResult.Email = userInfo.Email ui\<rparr>" and
    tr: "tr = [ClientDo (token_request g code), ClientDo (userinfo_request (Token.AccessToken t)),
               TokensSave (t\<lparr>Token.Email := userInfo.Email ui\<rparr>)]"
    by (elim exE conjE)
  from tokenFromCode_Ok [OF t] obtain tb tmap where
    tb: "client g (token_request g code) = Inr tb" "Unmarshal_map tb = Inr tmap" and
    tm: "token_of_tmap rt tmap = Ok t"
    by blast
  from token_of_tmap_Ok [OF tm] have
    at: "tmap ''access_token'' = Some (JString (Token.AccessToken t))"
    by blast
  from getUserInfo_Ok [OF ui] obtain ib where
    ib: "client g (userinfo_request (Token.AccessToken t)) = Inr ib" "Unmarshal_userInfo ib = Inr ui"
    by blast
  have saved: "saved_tokens tr = [t\<lparr>Token.Email := userInfo.Email ui\<rparr>]"
    by (simp add: tr)
  show ?thesis
    using tb at ib saved sv tr by (simp add: ar)
qed

theorem ExchangeCode_persists_one_token_witness:
  "ExchangeCode (acme (token_body 3600) (identity_body ''acme.com'')) noon ''code-1'' =
     (Ok \<lparr>AuthResult.AccessToken = ''AT1'', AuthResult.Email = ''a@acme.com''\<rparr>,
      [ClientDo (token_request (acme (token_body 3600) (identity_body ''acme.com'')) ''code-1''),
       ClientDo (userinfo_request ''AT1''),
       TokensSave \<lparr>Token.AccessToken = ''AT1'', RefreshToken = ''RT1'', TokenType = ''Bearer'',
          Expiry = Time_Add (Now noon) (Duration_mul Second (Duration_of_float64 noon 3600)),
          Token.Email = ''a@acme.com''\<rparr>]) \<and>
   (\<exists>tb tmap ib ui t.
      client (acme (token_body 3600) (identity_body ''acme.com''))
        (token_request (acme (token_body 3600) (identity_body ''acme.com'')) ''code-1'') = Inr tb \<and>
      Unmarshal_map tb = Inr tmap \<and>
      tmap ''access_token'' = Some (JString ''AT1'') \<and>
      client (acme (token_body 3600) (identity_body ''acme.com'')) (userinfo_request ''AT1'') = Inr ib \<and>
      Unmarshal_userInfo ib = Inr ui \<and>
      userInfo.Email ui = ''a@acme.com'' \<and>
      saved_tokens (snd (ExchangeCode (acme (token_body 3600) (identity_body ''acme.com'')) noon ''code-1'')) = [t] \<and>
      Save (tokensRepository (acme (token_body 3600) (identity_body ''acme.com''))) t = None \<and>
      Token.AccessToken t = ''AT1'' \<and>
      Token.Email t = ''a@acme.com'')"
proof -
  note h = ExchangeCode_acme [of 3600 noon "''code-1''"]
  from ExchangeCode_persists_one_token [OF h] show ?thesis
    by (simp add: h)
qed

section \<open>Authenticating an unknown token\<close>

text \<open>
  Claim C5. When the store's \<^verbatim>\<open>Get\<close> yields no token for an access token,
  \<^verbatim>\<open>Authenticate\<close> returns the error "access token not found", and the only call it has
  made is that \<^verbatim>\<open>Get\<close>: no request is sent to the identity endpoint.
\<close>

theorem Authenticate_absent_token:
  assumes "fst (Get (tokensRepository g) accessToken) = None"
  shows "Authenticate g accessToken =
           (Err (Errorf ''access token not found''), [TokensGet accessToken]) \<and>
         requests (snd (Authenticate g accessToken)) = []"
  using assms by (cases "Get (tokensRepository g) accessToken") (simp add: Authenticate_def)

theorem Authenticate_absent_token_witness:
  "fst (Get (tokensRepository (acme (token_body 3600) (identity_body ''acme.com''))) ''unknown-token'') = None \<and>
   Authenticate (acme (token_body 3600) (identity_body ''acme.com'')) ''unknown-token'' =
     (Err (Errorf ''access token not found''), [TokensGet ''unknown-token'']) \<and>
   requests (snd (Authenticate (acme (token_body 3600) (identity_body ''acme.com'')) ''unknown-token'')) = []"
proof -
  have h: "fst (Get (tokensRepository (acme (token_body 3600) (identity_body ''acme.com''))) ''unknown-token'') = None"
    by (simp add: acme_fields empty_store_def)
  from Authenticate_absent_token [OF h] h show ?thesis
    by simp
qed

section \<open>The hosted-domain policy\<close>

text \<open>
  Claim C2. \<^verbatim>\<open>checkHostedDomain\<close> accepts a hosted domain exactly when the configured
  allow-list is empty or the domain equals one of its entries, byte for byte. When the
  token and the identity were obtained and the policy rejects the identity's hosted
  domain, \<^verbatim>\<open>ExchangeCode\<close> fails with the error
  "email from non-allowed hosted domain " followed by that domain.
\<close>

theorem checkHostedDomain_policy:
  "(checkHostedDomain g hdom \<longleftrightarrow> allow_list g = [] \<or> hdom \<in> set (allow_list g)) \<and>
   (fst (tokenFromCode g rt code) = Ok t \<and>
    fst (getUserInfo g (Token.AccessToken t)) = Ok ui \<and>
    \<not> checkHostedDomain g (HostedDomain ui) \<longrightarrow>
      fst (ExchangeCode g rt code) =
        Err (Errorf (''email from non-allowed hosted domain '' @ HostedDomain ui)))"
proof (intro conjI impI)
  show "checkHostedDomain g hdom \<longleftrightarrow> allow_list g = [] \<or> hdom \<in> set (allow_list g)"
    by (rule checkHostedDomain_iff)
next
  assume a: "fst (tokenFromCode g rt code) = Ok t \<and>
    fst (getUserInfo g (Token.AccessToken t)) = Ok ui \<and>
    \<not> checkHostedDomain g (HostedDomain ui)"
  obtain tr1 where t: "tokenFromCode g rt code = (Ok t, tr1)"
    using a by (cases "tokenFromCode g rt code") simp
  obtain tr2 where u: "getUserInfo g (Token.AccessToken t) = (Ok ui, tr2)"
    using a by (cases "getUserInfo g (Token.AccessToken t)") simp
  show "fst (ExchangeCode g rt code) =
        Err (Errorf (''email from non-allowed hosted domain '' @ HostedDomain ui))"
    using a by (simp add: ExchangeCode_def t u)
qed

theorem checkHostedDomain_policy_witness:
  "fst (tokenFromCode (acme (token_body 3600) (identity_body ''other.com'')) noon ''code-1'') =
     Ok \<lparr>Token.AccessToken = ''AT1'', RefreshToken = ''RT1'', TokenType = ''Bearer'',
          Expiry = Time_Add (Now noon) (Duration_mul Second (Duration_of_float64 noon 3600)),
          Token.Email = []\<rparr> \<and>
   fst (getUserInfo (acme (token_body 3600) (identity_body ''other.com'')) ''AT1'') =
     Ok \<lparr>userInfo.Email = ''a@acme.com'', HostedDomain = ''other.com''\<rparr> \<and>
   \<not> checkHostedDomain (acme (token_body 3600) (identity_body ''other.com'')) ''other.com'' \<and>
   checkHostedDomain (acme (token_body 3600) (identity_body ''other.com'')) ''acme.com'' \<and>
   \<not> checkHostedDomain (acme (token_body 3600) (identity_body ''other.com'')) ''ACME.com'' \<and>
   fst (ExchangeCode (acme (token_body 3600) (identity_body ''other.com'')) noon ''code-1'') =
     Err (Errorf ''email from non-allowed hosted domain other.com'')"
proof -
  let ?g = "acme (token_body 3600) (identity_body ''other.com'')"
  let ?t = "\<lparr>Token.AccessToken = ''AT1'', RefreshToken = ''RT1'', TokenType = ''Bearer'',
          Expiry = Time_Add (Now noon) (Duration_mul Second (Duration_of_float64 noon 3600)),
          Token.Email = []\<rparr>"
  let ?ui = "\<lparr>userInfo.Email = ''a@acme.com'', HostedDomain = ''other.com''\<rparr>"
  have h1: "fst (tokenFromCode ?g noon ''code-1'') = Ok ?t"
    by (simp add: tokenFromCode_acme)
  have h2: "fst (getUserInfo ?g (Token.AccessToken ?t)) = Ok ?ui"
    by (simp add: getUserInfo_acme)
  have p: "checkHostedDomain ?g ''acme.com''" "\<not> checkHostedDomain ?g ''ACME.com''"
    "\<not> checkHostedDomain ?g ''other.com''"
    using checkHostedDomain_policy [of ?g _ noon "''code-1''" ?t ?ui]
    by (simp_all add: allow_list_acme)
  have h3: "\<not> checkHostedDomain ?g (HostedDomain ?ui)"
    using p by simp
  from checkHostedDomain_policy [of ?g "''other.com''" noon "''code-1''" ?t ?ui] h1 h2 h3 p
  show ?thesis by simp
qed

section \<open>Roles of a service account\<close>

lemma ForServiceAccountID_rows:
  assumes "PG_error st = None"
  shows "ForServiceAccountID st sa =
           Inr [r. r \<leftarrow> roles_table st, rb \<leftarrow> role_bindings_table st,
                   RoleID rb = ID r \<and> ServiceAccountID rb = sa]"
  using assms by (simp add: ForServiceAccountID_def)

lemma join_rows_set:
  "set [r. r \<leftarrow> rs, rb \<leftarrow> bs, RoleID rb = ID r \<and> ServiceAccountID rb = sa] =
     {r. r \<in> set rs \<and> (\<exists>rb. rb \<in> set bs \<and> RoleID rb = ID r \<and> ServiceAccountID rb = sa)}"
  by auto

lemma join_rows_empty:
  assumes "\<forall>rb \<in> set bs. ServiceAccountID rb \<noteq> sa"
  shows "[r. r \<leftarrow> rs, rb \<leftarrow> bs, RoleID rb = ID r \<and> ServiceAccountID rb = sa] = []"
  using assms by (induction rs) (auto simp add: concat_eq_Nil_conv)

text \<open>
  Claim C9. When the database executes the statement, \<^verbatim>\<open>ForServiceAccountID\<close> returns
  rows and no error; as a set the rows are exactly the roles some binding gives the
  service account; when no binding names the service account there are no rows; and
  whatever the order in which the same binding rows were inserted, the rows returned
  form the same set.
\<close>

theorem ForServiceAccountID_bound_roles:
  assumes "PG_error st = None"
  shows "\<exists>rs. ForServiceAccountID st sa = Inr rs \<and>
           set rs = bound_roles st sa \<and>
           ((\<forall>rb \<in> set (role_bindings_table st). ServiceAccountID rb \<noteq> sa) \<longrightarrow> rs = []) \<and>
           (\<forall>bs. mset bs = mset (role_bindings_table st) \<longrightarrow>
              (\<exists>rs'. ForServiceAccountID (st\<lparr>role_bindings_table := bs\<rparr>) sa = Inr rs' \<and>
                     set rs' = set rs))"
proof -
  let ?rs = "[r. r \<leftarrow> roles_table st, rb \<leftarrow> role_bindings_table st,
                   RoleID rb = ID r \<and> ServiceAccountID rb = sa]"
  have r: "ForServiceAccountID st sa = Inr ?rs"
    by (rule ForServiceAccountID_rows [OF assms])
  have s: "set ?rs = bound_roles st sa"
    unfolding bound_roles_def by (rule join_rows_set)
  have e: "(\<forall>rb \<in> set (role_bindings_table st). ServiceAccountID rb \<noteq> sa) \<longrightarrow> ?rs = []"
    using join_rows_empty by blast
  have p: "\<exists>rs'. ForServiceAccountID (st\<lparr>role_bindings_table := bs\<rparr>) sa = Inr rs' \<and> set rs' = set ?rs"
    if "mset bs = mset (role_bindings_table st)" for bs
  proof -
    have "set bs = set (role_bindings_table st)"
      using that by (rule mset_eq_setD)
    then have "bound_roles (st\<lparr>role_bindings_table := bs\<rparr>) sa = bound_roles st sa"
      by (simp add: bound_roles_def)
    moreover have "set [r. r \<leftarrow> roles_table st, rb \<leftarrow> bs,
                   RoleID rb = ID r \<and> ServiceAccountID rb = sa] = bound_roles (st\<lparr>role_bindings_table := bs\<rparr>) sa"
      unfolding bound_roles_def by (simp only: join_rows_set) simp
    ultimately show ?thesis
      using assms s by (simp add: ForServiceAccountID_def)
  qed
  show ?thesis
    using r s e p by blast
qed

lemma sample_rows:
  "ForServiceAccountID (sample_storage bs) sa =
     Inr [r. r \<leftarrow> [\<lparr>ID = ''1'', Name = ''admin''\<rparr>, \<lparr>ID = ''2'', Name = ''viewer''\<rparr>], rb \<leftarrow> bs,
             RoleID rb = ID r \<and> ServiceAccountID rb = sa]"
  by (simp add: ForServiceAccountID_def sample_storage_def)

theorem ForServiceAccountID_bound_roles_witness:
  "PG_error (sample_storage [\<lparr>RoleID = ''2'', ServiceAccountID = ''sa1''\<rparr>,
                             \<lparr>RoleID = ''1'', ServiceAccountID = ''sa1''\<rparr>]) = None \<and>
   ForServiceAccountID (sample_storage [\<lparr>RoleID = ''2'', ServiceAccountID = ''sa1''\<rparr>,
                                        \<lparr>RoleID = ''1'', ServiceAccountID = ''sa1''\<rparr>]) ''sa1'' =
     Inr [\<lparr>ID = ''1'', Name = ''admin''\<rparr>, \<lparr>ID = ''2'', Name = ''viewer''\<rparr>] \<and>
   bound_roles (sample_storage [\<lparr>RoleID = ''2'', ServiceAccountID = ''sa1''\<rparr>,
                                \<lparr>RoleID = ''1'', ServiceAccountID = ''sa1''\<rparr>]) ''sa1'' =
     {\<lparr>ID = ''1'', Name = ''admin''\<rparr>, \<lparr>ID = ''2'', Name = ''viewer''\<rparr>} \<and>
   ForServiceAccountID (sample_storage [\<lparr>RoleID = ''2'', ServiceAccountID = ''sa1''\<rparr>,
                                        \<lparr>RoleID = ''1'', ServiceAccountID = ''sa1''\<rparr>]) ''sa2'' = Inr [] \<and>
   (\<exists>rs'. ForServiceAccountID (sample_storage [\<lparr>RoleID = ''1'', ServiceAccountID = ''sa1''\<rparr>,
                                        \<lparr>RoleID = ''2'', ServiceAccountID = ''sa1''\<rparr>]) ''sa1'' = Inr rs' \<and>
          set rs' = {\<lparr>ID = ''1'', Name = ''admin''\<rparr>, \<lparr>ID = ''2'', Name = ''viewer''\<rparr>})"
proof -
  let ?b21 = "[\<lparr>RoleID = ''2'', ServiceAccountID = ''sa1''\<rparr>, \<lparr>RoleID = ''1'', ServiceAccountID = ''sa1''\<rparr>]"
  let ?b12 = "[\<lparr>RoleID = ''1'', ServiceAccountID = ''sa1''\<rparr>, \<lparr>RoleID = ''2'', ServiceAccountID = ''sa1''\<rparr>]"
  have h: "PG_error (sample_storage ?b21) = None"
    by (simp add: sample_storage_def)
  have v: "ForServiceAccountID (sample_storage ?b21) ''sa1'' =
     Inr [\<lparr>ID = ''1'', Name = ''admin''\<rparr>, \<lparr>ID = ''2'', Name = ''viewer''\<rparr>]"
    by (simp add: sample_rows)
  have m: "mset ?b12 = mset (role_bindings_table (sample_storage ?b21))"
    by (simp add: sample_storage_def)
  have u: "(sample_storage ?b21)\<lparr>role_bindings_table := ?b12\<rparr> = sample_storage ?b12"
    by (simp add: sample_storage_def)
  from ForServiceAccountID_bound_roles [OF h, of "''sa1''"] obtain rs where
    r1: "ForServiceAccountID (sample_storage ?b21) ''sa1'' = Inr rs" and
    r2: "set rs = bound_roles (sample_storage ?b21) ''sa1''" and
    r4: "\<forall>bs. mset bs = mset (role_bindings_table (sample_storage ?b21)) \<longrightarrow>
              (\<exists>rs'. ForServiceAccountID ((sample_storage ?b21)\<lparr>role_bindings_table := bs\<rparr>) ''sa1'' = Inr rs' \<and>
                     set rs' = set rs)"
    by (elim exE conjE)
  have rs: "rs = [\<lparr>ID = ''1'', Name = ''admin''\<rparr>, \<lparr>ID = ''2'', Name = ''viewer''\<rparr>]"
    using r1 v by simp
  have a: "bound_roles (sample_storage ?b21) ''sa1'' =
             {\<lparr>ID = ''1'', Name = ''admin''\<rparr>, \<lparr>ID = ''2'', Name = ''viewer''\<rparr>}"
    using r2 by (simp add: rs)
  have c: "\<exists>rs'. ForServiceAccountID (sample_storage ?b12) ''sa1'' = Inr rs' \<and>
          set rs' = {\<lparr>ID = ''1'', Name = ''admin''\<rparr>, \<lparr>ID = ''2'', Name = ''viewer''\<rparr>}"
    using r4 [rule_format, OF m] by (simp add: u rs)
  from ForServiceAccountID_bound_roles [OF h, of "''sa2''"] obtain rs2 where
    q1: "ForServiceAccountID (sample_storage ?b21) ''sa2'' = Inr rs2" and
    q3: "(\<forall>rb \<in> set (role_bindings_table (sample_storage ?b21)). ServiceAccountID rb \<noteq> ''sa2'') \<longrightarrow> rs2 = []"
    by (elim exE conjE)
  have "rs2 = []"
    using q3 by (simp add: sample_storage_def)
  then have d: "ForServiceAccountID (sample_storage ?b21) ''sa2'' = Inr []"
    using q1 by simp
  show ?thesis
    using h v a c d by (intro conjI)
qed

section \<open>An identity without a hosted domain\<close>

lemma store_string_error: "snd (store_string v (old, Some e)) = Some e"
  by (cases v) simp_all

lemma object_userInfo_no_hd:
  assumes "\<forall>k \<in> fst ` set kvs. \<not> tag_matches ''hd'' k"
  shows "HostedDomain (fst (object_userInfo kvs (ui, e))) = HostedDomain ui"
  using assms
proof (induction kvs arbitrary: ui e)
  case Nil
  then show ?case by simp
next
  case (Cons kv kvs)
  obtain k v where kv: "kv = (k, v)" by (cases kv)
  from Cons.prems kv have nk: "\<not> tag_matches ''hd'' k" and
    rest: "\<forall>k \<in> fst ` set kvs. \<not> tag_matches ''hd'' k"
    by simp_all
  show ?case
  proof (cases "tag_matches ''email'' k")
    case True
    obtain s e' where st: "store_string v (userInfo.Email ui, e) = (s, e')"
      by (cases "store_string v (userInfo.Email ui, e)")
    from Cons.IH [OF rest, of "ui\<lparr>userInfo.Email := s\<rparr>" e'] show ?thesis
      by (simp add: kv True st)
  next
    case False
    from Cons.IH [OF rest, of ui e] show ?thesis
      by (simp add: kv False nk)
  qed
qed

lemma Unmarshal_userInfo_no_hd:
  assumes "\<forall>k \<in> fst ` set kvs. \<not> tag_matches ''hd'' k"
      and "Unmarshal_userInfo (JSON (JObject kvs)) = Inr ui"
  shows "HostedDomain ui = []"
proof -
  let ?z = "\<lparr>userInfo.Email = [], HostedDomain = []\<rparr>"
  obtain u e where o: "object_userInfo kvs (?z, None) = (u, e)"
    by (cases "object_userInfo kvs (?z, None)")
  from assms(2) o have "u = ui"
    by (cases e) simp_all
  moreover from object_userInfo_no_hd [OF assms(1), of ?z None] o have "HostedDomain u = []"
    by simp
  ultimately show ?thesis by simp
qed

text \<open>
  Claim C10. Let the token be obtained and let the identity endpoint answer with a JSON
  object that decodes and has no member for the \<^verbatim>\<open>hd\<close> tag (no key that the decoder
  takes for \<^verbatim>\<open>hd\<close>, which it matches without regard to the case of letters). Then the
  decoded hosted domain is the empty string; the policy accepts it exactly when the
  allow-list is empty or contains the empty string; and when the policy rejects it,
  \<^verbatim>\<open>ExchangeCode\<close> fails with the error "email from non-allowed hosted domain "
  followed by nothing.
\<close>

theorem missing_hd_is_empty_domain:
  assumes "fst (tokenFromCode g rt code) = Ok t"
      and "client g (userinfo_request (Token.AccessToken t)) = Inr (JSON (JObject kvs))"
      and "\<forall>k \<in> fst ` set kvs. \<not> tag_matches ''hd'' k"
      and "Unmarshal_userInfo (JSON (JObject kvs)) = Inr ui"
  shows "HostedDomain ui = [] \<and>
         (checkHostedDomain g (HostedDomain ui) \<longleftrightarrow> allow_list g = [] \<or> [] \<in> set (allow_list g)) \<and>
         (\<not> checkHostedDomain g (HostedDomain ui) \<longrightarrow>
            fst (ExchangeCode g rt code) = Err (Errorf ''email from non-allowed hosted domain ''))"
proof -
  have e: "HostedDomain ui = []"
    by (rule Unmarshal_userInfo_no_hd [OF assms(3) assms(4)])
  have u: "getUserInfo g (Token.AccessToken t) = (Ok ui, [ClientDo (userinfo_request (Token.AccessToken t))])"
    using assms(2) assms(4) by (simp add: getUserInfo_def)
  obtain tr1 where t: "tokenFromCode g rt code = (Ok t, tr1)"
    using assms(1) by (cases "tokenFromCode g rt code") simp
  have r: "fst (ExchangeCode g rt code) = Err (Errorf ''email from non-allowed hosted domain '')"
    if "\<not> checkHostedDomain g (HostedDomain ui)"
    using that by (simp add: ExchangeCode_def t u e)
  show ?thesis
    using e r by (simp add: checkHostedDomain_iff)
qed

theorem missing_hd_is_empty_domain_witness:
  "fst (tokenFromCode (acme (token_body 3600) personal_body) noon ''code-1'') =
     Ok \<lparr>Token.AccessToken = ''AT1'', RefreshToken = ''RT1'', TokenType = ''Bearer'',
          Expiry = Time_Add (Now noon) (Duration_mul Second (Duration_of_float64 noon 3600)),
          Token.Email = []\<rparr> \<and>
   client (acme (token_body 3600) personal_body) (userinfo_request ''AT1'') =
     Inr (JSON (JObject [(''email'', JString ''a@gmail.com'')])) \<and>
   \<not> tag_matches ''hd'' ''email'' \<and>
   Unmarshal_userInfo (JSON (JObject [(''email'', JString ''a@gmail.com'')])) =
     Inr \<lparr>userInfo.Email = ''a@gmail.com'', HostedDomain = []\<rparr> \<and>
   \<not> checkHostedDomain (acme (token_body 3600) personal_body) [] \<and>
   fst (ExchangeCode (acme (token_body 3600) personal_body) noon ''code-1'') =
     Err (Errorf ''email from non-allowed hosted domain '')"
proof -
  let ?g = "acme (token_body 3600) personal_body"
  let ?t = "\<lparr>Token.AccessToken = ''AT1'', RefreshToken = ''RT1'', TokenType = ''Bearer'',
          Expiry = Time_Add (Now noon) (Duration_mul Second (Duration_of_float64 noon 3600)),
          Token.Email = []\<rparr>"
  let ?kvs = "[(''email'', JString ''a@gmail.com'')]"
  let ?ui = "\<lparr>userInfo.Email = ''a@gmail.com'', HostedDomain = []\<rparr>"
  have h1: "fst (tokenFromCode ?g noon ''code-1'') = Ok ?t"
    by (simp add: tokenFromCode_acme)
  have h2: "client ?g (userinfo_request (Token.AccessToken ?t)) = Inr (JSON (JObject ?kvs))"
    by (simp add: acme_fields serve_userinfo personal_body_def)
  have h3: "\<forall>k \<in> fst ` set ?kvs. \<not> tag_matches ''hd'' k"
    by (simp add: tag_matches_simps)
  have h4: "Unmarshal_userInfo (JSON (JObject ?kvs)) = Inr ?ui"
    by (simp add: tag_matches_simps)
  have n: "\<not> checkHostedDomain ?g []"
    by (simp add: checkHostedDomain_iff allow_list_acme)
  from missing_hd_is_empty_domain [OF h1 h2 h3 h4] n h1 h2 h4 show ?thesis
    by (simp add: tag_matches_simps)
qed

section \<open>The expiry of a new token\<close>

lemma wrap64_id:
  assumes "- (2 ^ 63) \<le> k" and "k < 2 ^ 63"
  shows "wrap64 k = k"
proof -
  have "(k + 2 ^ 63) mod 2 ^ 64 = k + 2 ^ 63"
    using assms by (intro mod_pos_pos_trivial) simp_all
  then show ?thesis
    by (simp add: wrap64_def)
qed

lemma Expiry_whole_seconds:
  assumes "- 9223372036 \<le> truncate_float64 x" and "truncate_float64 x \<le> 9223372036"
  shows "Time_Add (Now rt) (Duration_mul Second (Duration_of_float64 rt x)) =
           Now rt + truncate_float64 x * 1000000000"
proof -
  have d: "Duration_of_float64 rt x = truncate_float64 x"
    using assms by (simp add: Duration_of_float64_def)
  have "wrap64 (1000000000 * truncate_float64 x) = 1000000000 * truncate_float64 x"
    using assms by (intro wrap64_id) simp_all
  then show ?thesis
    by (simp add: Time_Add_def Duration_mul_def Second_def d mult.commute)
qed

lemma truncate_pos_iff: "0 < truncate_float64 x \<longleftrightarrow> 1 \<le> x"
proof (cases "0 \<le> x")
  case True
  have "0 < \<lfloor>x\<rfloor> \<longleftrightarrow> 1 \<le> x"
    using le_floor_iff [of 1 x] by simp
  then show ?thesis using True by (simp add: truncate_float64_def)
next
  case False
  then have "\<lceil>x\<rceil> \<le> 0"
    by (simp add: ceiling_le_iff)
  then show ?thesis using False by (simp add: truncate_float64_def)
qed

text \<open>
  Claim C8, as the code has it. After a successful exchange the one saved token was
  made from the \<^verbatim>\<open>expires_in\<close> number \<open>x\<close> of the token endpoint's answer. When \<open>x\<close>
  cut to whole seconds lies between \<open>-9223372036\<close> and \<open>9223372036\<close> (so that its count
  of nanoseconds fits an \<^verbatim>\<open>int64\<close>), the expiry is the creation time plus that many
  seconds, and it lies strictly after the creation time exactly when \<open>x\<close> is at
  least 1. The exchange accepts every number, also zero, negative numbers and
  fractions below 1, and for those the expiry is not in the future.
\<close>

theorem expiry_is_now_plus_whole_seconds:
  assumes "ExchangeCode g rt code = (Ok ar, tr)"
  shows "\<exists>tb tmap x t.
           client g (token_request g code) = Inr tb \<and> Unmarshal_map tb = Inr tmap \<and>
           tmap ''expires_in'' = Some (JNumber x) \<and>
           saved_tokens tr = [t] \<and>
           (- 9223372036 \<le> truncate_float64 x \<and> truncate_float64 x \<le> 9223372036 \<longrightarrow>
              Expiry t = Now rt + truncate_float64 x * 1000000000 \<and>
              (Now rt < Expiry t \<longleftrightarrow> 1 \<le> x))"
proof -
  from ExchangeCode_Ok [OF assms] obtain t ui where
    t: "fst (tokenFromCode g rt code) = Ok t" and
    "fst (getUserInfo g (Token.AccessToken t)) = Ok ui" and
    "checkHostedDomain g (HostedDomain ui)" and
    "Save (tokensRepository g) (t\<lparr>Token.Email := userInfo.Email ui\<rparr>) = None" and
    "ar = \<lparr>AuthResult.AccessToken = Token.AccessToken t, AuthResult.Email = userInfo.Email ui\<rparr>" and
    tr: "tr = [ClientDo (token_request g code), ClientDo (userinfo_request (Token.AccessToken t)),
               TokensSave (t\<lparr>Token.Email := userInfo.Email ui\<rparr>)]"
    by (elim exE conjE)
  from tokenFromCode_Ok [OF t] obtain tb tmap where
    tb: "client g (token_request g code) = Inr tb" "Unmarshal_map tb = Inr tmap" and
    tm: "token_of_tmap rt tmap = Ok t"
    by blast
  from token_of_tmap_Ok [OF tm] obtain x where
    x: "tmap ''expires_in'' = Some (JNumber x)" and
    ex: "Expiry t = Time_Add (Now rt) (Duration_mul Second (Duration_of_float64 rt x))"
    by blast
  let ?t = "t\<lparr>Token.Email := userInfo.Email ui\<rparr>"
  have saved: "saved_tokens tr = [?t]"
    by (simp add: tr)
  have b: "Expiry ?t = Now rt + truncate_float64 x * 1000000000 \<and> (Now rt < Expiry ?t \<longleftrightarrow> 1 \<le> x)"
    if r: "- 9223372036 \<le> truncate_float64 x \<and> truncate_float64 x \<le> 9223372036"
  proof -
    have e: "Expiry ?t = Now rt + truncate_float64 x * 1000000000"
      using Expiry_whole_seconds [of x rt] r ex by simp
    have "Now rt < Expiry ?t \<longleftrightarrow> 0 < truncate_float64 x"
      by (simp add: e)
    then show ?thesis
      using e truncate_pos_iff [of x] by simp
  qed
  show ?thesis
    using tb x saved b by blast
qed

theorem expiry_is_now_plus_whole_seconds_witness:
  "ExchangeCode (acme (token_body 3600) (identity_body ''acme.com'')) noon ''code-1'' =
     (Ok \<lparr>AuthResult.AccessToken = ''AT1'', AuthResult.Email = ''a@acme.com''\<rparr>,
      [ClientDo (token_request (acme (token_body 3600) (identity_body ''acme.com'')) ''code-1''),
       ClientDo (userinfo_request ''AT1''),
       TokensSave \<lparr>Token.AccessToken = ''AT1'', RefreshToken = ''RT1'', TokenType = ''Bearer'',
          Expiry = Time_Add (Now noon) (Duration_mul Second (Duration_of_float64 noon 3600)),
          Token.Email = ''a@acme.com''\<rparr>]) \<and>
   truncate_float64 3600 = 3600 \<and>
   Time_Add (Now noon) (Duration_mul Second (Duration_of_float64 noon 3600)) =
     Now noon + 3600 * 1000000000 \<and>
   Now noon < Time_Add (Now noon) (Duration_mul Second (Duration_of_float64 noon 3600))"
proof -
  let ?g = "acme (token_body 3600) (identity_body ''acme.com'')"
  note h = ExchangeCode_acme [of 3600 noon "''code-1''"]
  have tr: "truncate_float64 3600 = 3600"
    by (simp add: truncate_float64_def)
  from expiry_is_now_plus_whole_seconds [OF h] obtain tb tmap x t where
    tb: "client ?g (token_request ?g ''code-1'') = Inr tb" and
    tm: "Unmarshal_map tb = Inr tmap" and
    x: "tmap ''expires_in'' = Some (JNumber x)" and
    s: "saved_tokens [ClientDo (token_request ?g ''code-1''), ClientDo (userinfo_request ''AT1''),
       TokensSave \<lparr>Token.AccessToken = ''AT1'', RefreshToken = ''RT1'', TokenType = ''Bearer'',
          Expiry = Time_Add (Now noon) (Duration_mul Second (Duration_of_float64 noon 3600)),
          Token.Email = ''a@acme.com''\<rparr>] = [t]" and
    c: "- 9223372036 \<le> truncate_float64 x \<and> truncate_float64 x \<le> 9223372036 \<longrightarrow>
              Expiry t = Now noon + truncate_float64 x * 1000000000 \<and>
              (Now noon < Expiry t \<longleftrightarrow> 1 \<le> x)"
    by (elim exE conjE)
  have "tb = token_body 3600"
    using tb by (simp add: acme_fields serve_token)
  then have "x = 3600"
    using tm x by (auto simp add: token_body_def)
  moreover have "Expiry t = Time_Add (Now noon) (Duration_mul Second (Duration_of_float64 noon 3600))"
    using s by auto
  ultimately show ?thesis
    using c h tr by simp
qed

text \<open>
  The token endpoint answers \<^verbatim>\<open>expires_in: 0\<close>: the exchange succeeds and the saved
  token expires at the very instant it was created.
\<close>

theorem expiry_in_the_future_counterexample:
  "fst (ExchangeCode (acme (token_body 0) (identity_body ''acme.com'')) noon ''code-1'') =
     Ok \<lparr>AuthResult.AccessToken = ''AT1'', AuthResult.Email = ''a@acme.com''\<rparr> \<and>
   map Expiry (saved_tokens (snd (ExchangeCode (acme (token_body 0) (identity_body ''acme.com'')) noon ''code-1''))) =
     [Now noon]"
  by (simp add: ExchangeCode_acme Time_Add_def Duration_mul_def Duration_of_float64_def
      truncate_float64_def wrap64_def)

section \<open>The authorization URL\<close>

lemma QueryEscape_profile:
  "QueryEscape ''https://www.googleapis.com/auth/userinfo.profile'' =
     ''https%3A%2F%2Fwww.googleapis.com%2Fauth%2Fuserinfo.profile''"
  by (simp add: QueryEscape_def escape_byte_def unreserved_def upperhex_def)

lemma QueryEscape_email:
  "QueryEscape ''https://www.googleapis.com/auth/userinfo.email'' =
     ''https%3A%2F%2Fwww.googleapis.com%2Fauth%2Fuserinfo.email''"
  by (simp add: QueryEscape_def escape_byte_def unreserved_def upperhex_def)

lemma is_range_order_id: "is_range_order (\<lambda>m. m)"
  by (simp add: is_range_order_def)

lemma is_range_order_rotate1: "is_range_order rotate1"
proof -
  have "mset (rotate1 m) = mset m" for m :: "(string \<times> string) list"
    by (cases m) simp_all
  then show ?thesis
    by (simp add: is_range_order_def)
qed

lemma BuildAuthURL_Join:
  "BuildAuthURL rng g state =
     ''https://accounts.google.com/o/oauth2/v2/auth?'' @
     Join (map (\<lambda>(k, v). k @ ''='' @ v) (rng (authParams g state))) ''&''"
  by (simp add: BuildAuthURL_def buildURL_def mapToQueryStrings_def)

text \<open>
  Claim C6, as the code has it. \<^verbatim>\<open>BuildAuthURL\<close> calls no dependency: its result is
  fixed by the configuration, the state and the order in which \<^verbatim>\<open>range\<close> visits the
  eight entries of the parameter map. For the same configuration and state, two
  invocations yield the authorization endpoint, a question mark, and the same eight
  \<^verbatim>\<open>key=value\<close> parameters joined by \<^verbatim>\<open>&\<close>; the order of the parameters is the order
  of the visit and may differ between the two.
\<close>

theorem BuildAuthURL_up_to_order:
  assumes "is_range_order rng1" and "is_range_order rng2"
  shows "\<exists>ps1 ps2.
           BuildAuthURL rng1 g state =
             ''https://accounts.google.com/o/oauth2/v2/auth?'' @ Join ps1 ''&'' \<and>
           BuildAuthURL rng2 g state =
             ''https://accounts.google.com/o/oauth2/v2/auth?'' @ Join ps2 ''&'' \<and>
           mset ps1 = mset (map (\<lambda>(k, v). k @ ''='' @ v) (authParams g state)) \<and>
           mset ps2 = mset ps1"
proof -
  let ?kv = "\<lambda>(k, v). k @ ''='' @ v"
  let ?m = "authParams g state"
  have m1: "mset (map ?kv (rng1 ?m)) = mset (map ?kv ?m)"
    using assms(1) by (simp add: is_range_order_def)
  have m2: "mset (map ?kv (rng2 ?m)) = mset (map ?kv ?m)"
    using assms(2) by (simp add: is_range_order_def)
  show ?thesis
    using BuildAuthURL_Join [of rng1 g state] BuildAuthURL_Join [of rng2 g state] m1 m2
    by (intro exI [of _ "map ?kv (rng1 ?m)"] exI [of _ "map ?kv (rng2 ?m)"]) simp
qed

lemma authParams_acme:
  "authParams (acme tb ib) state =
     [(''state'', state),
      (''redirect_uri'', ''https://iam.example.org/callback''),
      (''client_id'', ''client-1''),
      (''scope'', ''https%3A%2F%2Fwww.googleapis.com%2Fauth%2Fuserinfo.profile+https%3A%2F%2Fwww.googleapis.com%2Fauth%2Fuserinfo.email''),
      (''access_type'', ''offline''),
      (''include_granted_scopes'', ''true''),
      (''response_type'', ''code''),
      (''prompt'', ''consent'')]"
  by (simp add: authParams_def acme_fields acme_config_def QueryEscape_profile QueryEscape_email)

lemma BuildAuthURL_acme_written:
  "BuildAuthURL (\<lambda>m. m) (acme tb ib) state =
     ''https://accounts.google.com/o/oauth2/v2/auth?state='' @ state @
     ''&redirect_uri=https://iam.example.org/callback&client_id=client-1&scope=https%3A%2F%2Fwww.googleapis.com%2Fauth%2Fuserinfo.profile+https%3A%2F%2Fwww.googleapis.com%2Fauth%2Fuserinfo.email&access_type=offline&include_granted_scopes=true&response_type=code&prompt=consent''"
  by (simp add: BuildAuthURL_Join authParams_acme)

lemma BuildAuthURL_acme_rotated:
  "BuildAuthURL rotate1 (acme tb ib) state =
     ''https://accounts.google.com/o/oauth2/v2/auth?redirect_uri=https://iam.example.org/callback&client_id=client-1&scope=https%3A%2F%2Fwww.googleapis.com%2Fauth%2Fuserinfo.profile+https%3A%2F%2Fwww.googleapis.com%2Fauth%2Fuserinfo.email&access_type=offline&include_granted_scopes=true&response_type=code&prompt=consent&state='' @ state"
  by (simp add: BuildAuthURL_Join authParams_acme)

theorem BuildAuthURL_up_to_order_witness:
  "is_range_order (\<lambda>m. m) \<and> is_range_order rotate1 \<and>
   (\<exists>ps1 ps2.
      BuildAuthURL (\<lambda>m. m) (acme error_body personal_body) ''xyz'' =
        ''https://accounts.google.com/o/oauth2/v2/auth?'' @ Join ps1 ''&'' \<and>
      BuildAuthURL rotate1 (acme error_body personal_body) ''xyz'' =
        ''https://accounts.google.com/o/oauth2/v2/auth?'' @ Join ps2 ''&'' \<and>
      mset ps2 = mset ps1)"
proof -
  from BuildAuthURL_up_to_order [OF is_range_order_id is_range_order_rotate1,
      of "acme error_body personal_body" "''xyz''"]
  show ?thesis
    using is_range_order_id is_range_order_rotate1 by blast
qed

text \<open>
  Two visiting orders of the same map, the written one and the one that starts at the
  second entry and comes round to the first, give two different URL strings for the
  same configuration and state.
\<close>

theorem BuildAuthURL_deterministic_counterexample:
  "is_range_order (\<lambda>m. m) \<and> is_range_order rotate1 \<and>
   BuildAuthURL (\<lambda>m. m) (acme error_body personal_body) ''xyz'' \<noteq>
   BuildAuthURL rotate1 (acme error_body personal_body) ''xyz''"
  by (simp add: is_range_order_id is_range_order_rotate1 BuildAuthURL_acme_written
      BuildAuthURL_acme_rotated)

section \<open>Answers that do not have the expected shape\<close>

text \<open>
  Claim C4 at a failing input. The token endpoint answers a rejected code with the
  well-formed JSON object \<^verbatim>\<open>{"error": "invalid_grant", "error_description": "Bad Request"}\<close>.
  \<^verbatim>\<open>json.Unmarshal\<close> accepts it, the map has no \<^verbatim>\<open>access_token\<close>, and the first type
  assertion panics: \<^verbatim>\<open>ExchangeCode\<close> returns no error value.
\<close>

theorem ExchangeCode_panics_on_error_answer:
  "ExchangeCode (acme error_body (identity_body ''acme.com'')) noon ''code-1'' =
     (Panic (InterfaceConversion ''access_token''),
      [ClientDo (token_request (acme error_body (identity_body ''acme.com'')) ''code-1'')])"
  by (simp add: ExchangeCode_def tokenFromCode_def acme_fields serve_token error_body_def
      token_of_tmap_def)

section \<open>Errors of the dependencies are handed on\<close>

text \<open>
  Each step of \<^verbatim>\<open>ExchangeCode\<close> that returns an error ends the operation with that very
  error, after the calls made so far and no other; so do the identity request of
  \<^verbatim>\<open>Authenticate\<close> and a failing \<^verbatim>\<open>Get\<close> that still returns a token.
\<close>

lemma ExchangeCode_post_error:
  assumes "client g (token_request g code) = Inl err"
  shows "ExchangeCode g rt code = (Err err, [ClientDo (token_request g code)])"
  using assms by (simp add: ExchangeCode_def tokenFromCode_def)

lemma ExchangeCode_decode_error:
  assumes "client g (token_request g code) = Inr b" and "Unmarshal_map b = Inl err"
  shows "ExchangeCode g rt code = (Err err, [ClientDo (token_request g code)])"
  using assms by (simp add: ExchangeCode_def tokenFromCode_def)

lemma tokenFromCode_pair:
  assumes "fst (tokenFromCode g rt code) = r"
  shows "tokenFromCode g rt code = (r, [ClientDo (token_request g code)])"
  using assms tokenFromCode_trace [of g rt code]
  by (cases "tokenFromCode g rt code") simp

lemma ExchangeCode_get_error:
  assumes "fst (tokenFromCode g rt code) = Ok t"
      and "client g (userinfo_request (Token.AccessToken t)) = Inl err"
  shows "ExchangeCode g rt code =
           (Err err, [ClientDo (token_request g code),
                      ClientDo (userinfo_request (Token.AccessToken t))])"
  using assms(2) by (simp add: ExchangeCode_def tokenFromCode_pair [OF assms(1)] getUserInfo_def)

lemma ExchangeCode_identity_decode_error:
  assumes "fst (tokenFromCode g rt code) = Ok t"
      and "client g (userinfo_request (Token.AccessToken t)) = Inr b"
      and "Unmarshal_userInfo b = Inl err"
  shows "ExchangeCode g rt code =
           (Err err, [ClientDo (token_request g code),
                      ClientDo (userinfo_request (Token.AccessToken t))])"
  using assms(2,3) by (simp add: ExchangeCode_def tokenFromCode_pair [OF assms(1)] getUserInfo_def)

lemma getUserInfo_pair:
  assumes "fst (getUserInfo g a) = r"
  shows "getUserInfo g a = (r, [ClientDo (userinfo_request a)])"
  using assms getUserInfo_trace [of g a]
  by (cases "getUserInfo g a") simp

lemma ExchangeCode_save_error:
  assumes "fst (tokenFromCode g rt code) = Ok t"
      and "fst (getUserInfo g (Token.AccessToken t)) = Ok ui"
      and "checkHostedDomain g (HostedDomain ui)"
      and "Save (tokensRepository g) (t\<lparr>Token.Email := userInfo.Email ui\<rparr>) = Some err"
  shows "ExchangeCode g rt code =
           (Err err, [ClientDo (token_request g code),
                      ClientDo (userinfo_request (Token.AccessToken t)),
                      TokensSave (t\<lparr>Token.Email := userInfo.Email ui\<rparr>)])"
  using assms(3,4)
  by (simp add: ExchangeCode_def tokenFromCode_pair [OF assms(1)] getUserInfo_pair [OF assms(2)])

lemma Authenticate_get_error_with_token:
  assumes "Get (tokensRepository g) accessToken = (Some t, Some err)"
  shows "Authenticate g accessToken = (Err err, [TokensGet accessToken])"
  using assms by (simp add: Authenticate_def)

lemma Authenticate_identity_error:
  assumes "Get (tokensRepository g) accessToken = (Some t, None)"
      and "fst (getUserInfo g (Token.AccessToken t)) = Err err"
  shows "Authenticate g accessToken =
           (Err err, [TokensGet accessToken, ClientDo (userinfo_request (Token.AccessToken t))])"
  using assms(1) by (simp add: Authenticate_def getUserInfo_pair [OF assms(2)])

lemma Authenticate_Ok:
  assumes "Get (tokensRepository g) accessToken = (Some t, None)"
      and "fst (getUserInfo g (Token.AccessToken t)) = Ok ui"
  shows "Authenticate g accessToken =
           (Ok \<lparr>AuthResult.AccessToken = Token.AccessToken t, AuthResult.Email = Token.Email t\<rparr>,
            [TokensGet accessToken, ClientDo (userinfo_request (Token.AccessToken t))])"
  using assms(1) by (simp add: Authenticate_def getUserInfo_pair [OF assms(2)])

section \<open>A failing token store\<close>

text \<open>
  Claim C3 at a failing input. The store's \<^verbatim>\<open>Get\<close> fails: it returns no token and the
  error "connection refused". \<^verbatim>\<open>Authenticate\<close> tests the token for nil first and
  returns the error "access token not found" in place of the store's error.
\<close>

theorem Authenticate_replaces_store_error:
  "Get (tokensRepository ((acme error_body personal_body)\<lparr>tokensRepository := broken_store\<rparr>)) ''AT1'' =
     (None, Some (PersistenceError ''connection refused'')) \<and>
   Authenticate ((acme error_body personal_body)\<lparr>tokensRepository := broken_store\<rparr>) ''AT1'' =
     (Err (Errorf ''access token not found''), [TokensGet ''AT1''])"
  by (simp add: Authenticate_def broken_store_def)

section \<open>The state parameter read back\<close>

text \<open>
  Claim C7 at a failing input. The state \<^verbatim>\<open>a+b&c=d\<close> is written into the URL as it is;
  read back, the \<^verbatim>\<open>state\<close> parameter ends at the \<^verbatim>\<open>&\<close> and its \<^verbatim>\<open>+\<close> is a space,
  whether the state is written first or last among the parameters.
\<close>

theorem state_not_read_back:
  "url_query_param (BuildAuthURL (\<lambda>m. m) (acme error_body personal_body) ''a+b&c=d'') ''state'' = ''a b'' \<and>
   url_query_param (BuildAuthURL rotate1 (acme error_body personal_body) ''a+b&c=d'') ''state'' = ''a b''"
  by code_simp

end
